theory Spec2Isabelle
  imports Main "HOL-Library.Word"
begin

unbundle bit_operations_syntax

section \<open>Data model of package rand\<close>

text \<open>
  The randomness engine of the repository is the Go package \<open>rand\<close>. Its integers are
  machine integers: \<open>abi.ChainEpoch\<close> and \<open>crypto.DomainSeparationTag\<close> are \<open>int64\<close>, a beacon
  round is \<open>uint64\<close>. They are modelled as 64-bit words, read signed (\<open>sint\<close>, \<open><s\<close>)
  where the Go type is signed. A block header is taken to have a ticket, and a tipset
  handed out by the chain store to be a value, not a nil pointer.
\<close>

type_synonym byte = "8 word"
type_synonym bytes = "byte list"
type_synonym ChainEpoch = "64 word"
type_synonym DomainSeparationTag = "64 word"
type_synonym Cid = nat
type_synonym TipSetKey = "Cid list"

text \<open>\<open>network.Version\<close> is an unsigned integer; only its order is used.\<close>

type_synonym Version = nat

definition Version13 :: Version where
  "Version13 = 13"

definition Version14 :: Version where
  "Version14 = 14"

record BeaconEntry =
  Round :: "64 word"
  Data :: bytes

record Ticket =
  VRFProof :: bytes

record BlockHeader =
  Ticket :: Ticket
  BeaconEntries :: "BeaconEntry list"

record TipSet =
  Blocks :: "BlockHeader list"
  Height :: ChainEpoch
  Parents :: TipSetKey

text \<open>
  Errors are values. An error that a chain-store call returns is passed on unchanged by the
  package (\<open>return nil, err\<close>); it is kept apart from the errors the package creates itself.
  Indexing an empty block list panics in Go.
\<close>

type_synonym store_error = string

datatype error =
    ErrDerivingRandomness
  | ErrHashingVRFDigest
  | ErrHashingEntropy
  | ErrDrawFromFuture
  | ErrStore store_error
  | ErrFailedToLoadParents store_error
  | ErrBeaconNotFound "64 word" ChainEpoch
  | PanicIndexOutOfRange

section \<open>The hash accumulator and DrawRandomness\<close>

text \<open>
  BLAKE2b-256 comes from an external library; the primitive \<open>blake2b.Sum256\<close> is a parameter
  \<open>H\<close> of the model. A streaming accumulator (\<open>hash.Hash\<close>) holds the bytes written so
  far; \<open>Write\<close> appends and never fails, \<open>Sum(nil)\<close> is the primitive applied to what was
  written.
\<close>

type_synonym hasher = bytes

definition blake2b_New256 :: hasher where
  "blake2b_New256 = []"

definition hash_Write :: "hasher \<Rightarrow> bytes \<Rightarrow> hasher \<times> bool" where
  \<comment> \<open>the second component is \<open>err != nil\<close>\<close>
  "hash_Write h p = (h @ p, False)"

definition hash_Sum :: "(bytes \<Rightarrow> bytes) \<Rightarrow> hasher \<Rightarrow> bytes" where
  "hash_Sum H h = H h"

text \<open>\<open>binary.BigEndian\<close> lays a 64-bit value out most significant byte first.\<close>

definition BigEndian_PutUint64 :: "64 word \<Rightarrow> bytes" where
  "BigEndian_PutUint64 v =
     [ucast (drop_bit 56 v), ucast (drop_bit 48 v), ucast (drop_bit 40 v), ucast (drop_bit 32 v),
      ucast (drop_bit 24 v), ucast (drop_bit 16 v), ucast (drop_bit 8 v), ucast v]"

definition binary_Write :: "hasher \<Rightarrow> 64 word \<Rightarrow> hasher \<times> bool" where
  \<comment> \<open>\<open>binary.Write(h, binary.BigEndian, x)\<close> for an \<open>int64\<close> value \<open>x\<close>\<close>
  "binary_Write h x = hash_Write h (BigEndian_PutUint64 x)"

definition DrawRandomness ::
  "(bytes \<Rightarrow> bytes) \<Rightarrow> bytes \<Rightarrow> DomainSeparationTag \<Rightarrow> ChainEpoch \<Rightarrow> bytes \<Rightarrow> error + bytes" where
  "DrawRandomness H rbase pers round entropy =
     (let h = blake2b_New256;
          (h, err) = binary_Write h pers
      in if err then Inl ErrDerivingRandomness
         else
           let VRFDigest = H rbase;
               (h, err) = hash_Write h VRFDigest
           in if err then Inl ErrHashingVRFDigest
              else
                let (h, err) = binary_Write h round
                in if err then Inl ErrDerivingRandomness
                   else
                     let (h, err) = hash_Write h entropy
                     in if err then Inl ErrHashingEntropy
                        else Inr (hash_Sum H h))"

section \<open>Collaborators\<close>

text \<open>
  The chain store, the beacon schedule and the version getter are collaborators that the
  package calls and does not define; they are parameters of the model, held in the fields
  of the records below. A chain-store call returns its own error or a value.
\<close>

record ChainStore =
  LoadTipSet :: "TipSetKey \<Rightarrow> store_error + TipSet"
  GetTipsetByHeight :: "ChainEpoch \<Rightarrow> TipSet \<Rightarrow> bool \<Rightarrow> store_error + TipSet"
  GetLatestBeaconEntry :: "TipSet \<Rightarrow> store_error + BeaconEntry"

record RandomBeacon =
  MaxBeaconRoundForEpoch :: "Version \<Rightarrow> ChainEpoch \<Rightarrow> 64 word"

record Schedule =
  BeaconForEpoch :: "ChainEpoch \<Rightarrow> RandomBeacon"

record stateRand =
  cs :: ChainStore
  blks :: "Cid list"
  beacon :: Schedule
  networkVersionGetter :: "ChainEpoch \<Rightarrow> Version"

definition NewTipSetKey :: "Cid list \<Rightarrow> TipSetKey" where
  "NewTipSetKey cids = cids"

definition firstBlock :: "TipSet \<Rightarrow> error + BlockHeader" where
  \<comment> \<open>\<open>ts.Blocks()[0]\<close>\<close>
  "firstBlock ts = (case Blocks ts of [] \<Rightarrow> Inl PanicIndexOutOfRange | b # _ \<Rightarrow> Inr b)"

text \<open>
  Modelled from the spec: \<open>TipSet.MinTicketBlock\<close> is defined outside the files at hand.
  The spec (4.4) derives chain randomness from the anchor tipset's first block, the blocks
  of a tipset being an ordered sequence; the method is modelled as the first block.
\<close>

definition MinTicketBlock :: "TipSet \<Rightarrow> error + BlockHeader" where
  "MinTicketBlock ts = firstBlock ts"

section \<open>Anchor lookup\<close>

text \<open>
  Trace spans and the error log line of \<open>getBeaconRandomnessV3\<close> do not influence the
  returned values and are left out.
\<close>

definition GetBeaconRandomnessTipset :: "stateRand \<Rightarrow> ChainEpoch \<Rightarrow> bool \<Rightarrow> error + TipSet" where
  "GetBeaconRandomnessTipset sr round lookback =
     (case LoadTipSet (cs sr) (NewTipSetKey (blks sr)) of
        Inl err \<Rightarrow> Inl (ErrStore err)
      | Inr ts \<Rightarrow>
          if Height ts <s round then Inl ErrDrawFromFuture
          else
            let searchHeight = (if round <s 0 then 0 else round)
            in (case GetTipsetByHeight (cs sr) searchHeight ts lookback of
                  Inl err \<Rightarrow> Inl (ErrStore err)
                | Inr randTs \<Rightarrow> Inr randTs))"

definition getChainRandomness ::
  "(bytes \<Rightarrow> bytes) \<Rightarrow> stateRand \<Rightarrow> DomainSeparationTag \<Rightarrow> ChainEpoch \<Rightarrow> bytes \<Rightarrow> bool
     \<Rightarrow> error + bytes" where
  "getChainRandomness H sr pers round entropy lookback =
     (case LoadTipSet (cs sr) (NewTipSetKey (blks sr)) of
        Inl err \<Rightarrow> Inl (ErrStore err)
      | Inr ts \<Rightarrow>
          if Height ts <s round then Inl ErrDrawFromFuture
          else
            let searchHeight = (if round <s 0 then 0 else round)
            in (case GetTipsetByHeight (cs sr) searchHeight ts lookback of
                  Inl err \<Rightarrow> Inl (ErrStore err)
                | Inr randTs \<Rightarrow>
                    (case MinTicketBlock randTs of
                       Inl err \<Rightarrow> Inl err
                     | Inr mtb \<Rightarrow> DrawRandomness H (VRFProof (Ticket mtb)) pers round entropy)))"

section \<open>The three generations of beacon randomness\<close>

definition getBeaconRandomnessV1 ::
  "(bytes \<Rightarrow> bytes) \<Rightarrow> stateRand \<Rightarrow> DomainSeparationTag \<Rightarrow> ChainEpoch \<Rightarrow> bytes \<Rightarrow> error + bytes" where
  "getBeaconRandomnessV1 H sr pers round entropy =
     (case GetBeaconRandomnessTipset sr round True of
        Inl err \<Rightarrow> Inl err
      | Inr randTs \<Rightarrow>
          (case GetLatestBeaconEntry (cs sr) randTs of
             Inl err \<Rightarrow> Inl (ErrStore err)
           | Inr be \<Rightarrow> DrawRandomness H (Data be) pers round entropy))"

definition getBeaconRandomnessV2 ::
  "(bytes \<Rightarrow> bytes) \<Rightarrow> stateRand \<Rightarrow> DomainSeparationTag \<Rightarrow> ChainEpoch \<Rightarrow> bytes \<Rightarrow> error + bytes" where
  "getBeaconRandomnessV2 H sr pers round entropy =
     (case GetBeaconRandomnessTipset sr round False of
        Inl err \<Rightarrow> Inl err
      | Inr randTs \<Rightarrow>
          (case GetLatestBeaconEntry (cs sr) randTs of
             Inl err \<Rightarrow> Inl (ErrStore err)
           | Inr be \<Rightarrow> DrawRandomness H (Data be) pers round entropy))"

text \<open>
  The loop of \<open>extractBeaconEntryForEpoch\<close>, \<open>for i := 0; i < 20; i++\<close>, by recursion on
  the number of iterations left. Each iteration searches the beacon entries of the first
  block of \<open>randTs\<close> from the front, and then loads the parent tipset.
\<close>

fun scanLoop :: "ChainStore \<Rightarrow> 64 word \<Rightarrow> ChainEpoch \<Rightarrow> nat \<Rightarrow> TipSet \<Rightarrow> error + BeaconEntry" where
  "scanLoop store round filecoinEpoch 0 randTs = Inl (ErrBeaconNotFound round filecoinEpoch)"
| "scanLoop store round filecoinEpoch (Suc n) randTs =
     (case firstBlock randTs of
        Inl err \<Rightarrow> Inl err
      | Inr b \<Rightarrow>
          (case find (\<lambda>v. Round v = round) (BeaconEntries b) of
             Some v \<Rightarrow> Inr v
           | None \<Rightarrow>
               (case LoadTipSet store (Parents randTs) of
                  Inl err \<Rightarrow> Inl (ErrFailedToLoadParents err)
                | Inr next \<Rightarrow> scanLoop store round filecoinEpoch n next)))"

definition extractBeaconEntryForEpoch :: "stateRand \<Rightarrow> ChainEpoch \<Rightarrow> error + BeaconEntry" where
  "extractBeaconEntryForEpoch sr filecoinEpoch =
     (case GetBeaconRandomnessTipset sr filecoinEpoch False of
        Inl err \<Rightarrow> Inl err
      | Inr randTs \<Rightarrow>
          let nv = networkVersionGetter sr filecoinEpoch;
              round = MaxBeaconRoundForEpoch (BeaconForEpoch (beacon sr) filecoinEpoch) nv filecoinEpoch
          in scanLoop (cs sr) round filecoinEpoch 20 randTs)"

definition getBeaconRandomnessV3 ::
  "(bytes \<Rightarrow> bytes) \<Rightarrow> stateRand \<Rightarrow> DomainSeparationTag \<Rightarrow> ChainEpoch \<Rightarrow> bytes \<Rightarrow> error + bytes" where
  "getBeaconRandomnessV3 H sr pers filecoinEpoch entropy =
     (if filecoinEpoch <s 0 then getBeaconRandomnessV2 H sr pers filecoinEpoch entropy
      else
        (case extractBeaconEntryForEpoch sr filecoinEpoch of
           Inl err \<Rightarrow> Inl err
         | Inr be \<Rightarrow> DrawRandomness H (Data be) pers filecoinEpoch entropy))"

section \<open>Version dispatch\<close>

definition GetChainRandomness ::
  "(bytes \<Rightarrow> bytes) \<Rightarrow> stateRand \<Rightarrow> DomainSeparationTag \<Rightarrow> ChainEpoch \<Rightarrow> bytes \<Rightarrow> error + bytes" where
  "GetChainRandomness H sr pers filecoinEpoch entropy =
     (let nv = networkVersionGetter sr filecoinEpoch
      in if nv \<ge> Version13 then getChainRandomness H sr pers filecoinEpoch entropy False
         else getChainRandomness H sr pers filecoinEpoch entropy True)"

definition GetBeaconRandomness ::
  "(bytes \<Rightarrow> bytes) \<Rightarrow> stateRand \<Rightarrow> DomainSeparationTag \<Rightarrow> ChainEpoch \<Rightarrow> bytes \<Rightarrow> error + bytes" where
  "GetBeaconRandomness H sr pers filecoinEpoch entropy =
     (let nv = networkVersionGetter sr filecoinEpoch
      in if nv \<ge> Version14 then getBeaconRandomnessV3 H sr pers filecoinEpoch entropy
         else if nv = Version13 then getBeaconRandomnessV2 H sr pers filecoinEpoch entropy
         else getBeaconRandomnessV1 H sr pers filecoinEpoch entropy)"

section \<open>Construction\<close>

datatype LogLevel = Debug | Info | Warn | Error








section \<open>The derivation paths in the words of the specification\<close>

text \<open>
  The definitions of this section follow the specification, not the code; the theorems
  below compare the code with them.
\<close>

text \<open>The byte stream that the hash-chain function is specified to absorb (4.1).\<close>

definition drawStream :: "(bytes \<Rightarrow> bytes) \<Rightarrow> bytes \<Rightarrow> DomainSeparationTag \<Rightarrow> ChainEpoch \<Rightarrow> bytes \<Rightarrow> bytes" where
  "drawStream H rbase pers round entropy =
     BigEndian_PutUint64 pers @ H rbase @ BigEndian_PutUint64 round @ entropy"

text \<open>
  ``Anchor search with or without lookback, then take the anchor's latest beacon entry''
  (4.4), the entry's data being the base of the hash-chain function.
\<close>

definition anchorThenLatestEntry ::
  "(bytes \<Rightarrow> bytes) \<Rightarrow> stateRand \<Rightarrow> bool \<Rightarrow> DomainSeparationTag \<Rightarrow> ChainEpoch \<Rightarrow> bytes \<Rightarrow> error + bytes" where
  "anchorThenLatestEntry H sr lookback pers epoch entropy =
     (case GetBeaconRandomnessTipset sr epoch lookback of
        Inl err \<Rightarrow> Inl err
      | Inr anchor \<Rightarrow>
          (case GetLatestBeaconEntry (cs sr) anchor of
             Inl err \<Rightarrow> Inl (ErrStore err)
           | Inr be \<Rightarrow> DrawRandomness H (Data be) pers epoch entropy))"

text \<open>
  ``Compute a target round via the max beacon round for epoch function, then run the
  backward scanner'' (4.4) from the anchor found without lookback, bounded by 20 hops (4.3).
\<close>

definition newestAlgorithm ::
  "(bytes \<Rightarrow> bytes) \<Rightarrow> stateRand \<Rightarrow> DomainSeparationTag \<Rightarrow> ChainEpoch \<Rightarrow> bytes \<Rightarrow> error + bytes" where
  "newestAlgorithm H sr pers epoch entropy =
     (case GetBeaconRandomnessTipset sr epoch False of
        Inl err \<Rightarrow> Inl err
      | Inr anchor \<Rightarrow>
          (case scanLoop (cs sr)
                  (MaxBeaconRoundForEpoch (BeaconForEpoch (beacon sr) epoch)
                     (networkVersionGetter sr epoch) epoch)
                  epoch 20 anchor of
             Inl err \<Rightarrow> Inl err
           | Inr be \<Rightarrow> DrawRandomness H (Data be) pers epoch entropy))"

text \<open>
  ``Output always derives from the anchor tipset's first block's ticket VRF proof'' (4.4),
  the anchor being found by the anchor locator (4.2).
\<close>

definition anchorThenTicket ::
  "(bytes \<Rightarrow> bytes) \<Rightarrow> stateRand \<Rightarrow> bool \<Rightarrow> DomainSeparationTag \<Rightarrow> ChainEpoch \<Rightarrow> bytes \<Rightarrow> error + bytes" where
  "anchorThenTicket H sr lookback pers epoch entropy =
     (case GetBeaconRandomnessTipset sr epoch lookback of
        Inl err \<Rightarrow> Inl err
      | Inr anchor \<Rightarrow>
          (case firstBlock anchor of
             Inl err \<Rightarrow> Inl err
           | Inr b \<Rightarrow> DrawRandomness H (VRFProof (Ticket b)) pers epoch entropy))"

text \<open>
  The first beacon entry with the given round among those carried by the first block of a
  tipset, if there is one.
\<close>

definition carries :: "64 word \<Rightarrow> TipSet \<Rightarrow> BeaconEntry option" where
  "carries round ts =
     (case Blocks ts of [] \<Rightarrow> None | b # _ \<Rightarrow> find (\<lambda>v. Round v = round) (BeaconEntries b))"

text \<open>
  \<open>ancestry store t ps\<close>: the tipsets \<open>ps\<close> are the successive ancestors of \<open>t\<close>, each
  loaded from the store by the parent key of the one before.
\<close>

fun ancestry :: "ChainStore \<Rightarrow> TipSet \<Rightarrow> TipSet list \<Rightarrow> bool" where
  "ancestry store t [] = True"
| "ancestry store t (p # ps) = (LoadTipSet store (Parents t) = Inr p \<and> ancestry store p ps)"

section \<open>A small chain for concrete evaluation\<close>

text \<open>
  Thirty-one tipsets at heights 0 to 30, one block each; the block at height \<open>n\<close> carries
  the beacon entry of round \<open>n\<close>. The parent key of the genesis tipset is empty and does
  not load. Both search policies return the tipset at the requested height.
\<close>

definition exampleHash :: "bytes \<Rightarrow> bytes" where
  "exampleHash bs = take 32 (rev bs @ replicate 32 0)"

definition exampleTipSet :: "nat \<Rightarrow> TipSet" where
  "exampleTipSet n =
     \<lparr>Blocks = [\<lparr>Ticket = \<lparr>VRFProof = [of_nat n, 7]\<rparr>,
                 BeaconEntries = [\<lparr>Round = of_nat n, Data = [of_nat n, 1]\<rparr>]\<rparr>],
      Height = of_nat n,
      Parents = (if n = 0 then [] else [n - 1])\<rparr>"

definition exampleStore :: ChainStore where
  "exampleStore =
     \<lparr>LoadTipSet = (\<lambda>k. case k of
          [n] \<Rightarrow> if n \<le> 30 then Inr (exampleTipSet n) else Inl ''tipset not found''
        | _ \<Rightarrow> Inl ''tipset not found''),
      GetTipsetByHeight = (\<lambda>h ts lookback.
          if h \<le> Height ts then Inr (exampleTipSet (unat h)) else Inl ''height above start''),
      GetLatestBeaconEntry = (\<lambda>ts. case Blocks ts of
          [] \<Rightarrow> Inl ''no beacon entry''
        | b # _ \<Rightarrow> (case BeaconEntries b of [] \<Rightarrow> Inl ''no beacon entry'' | e # es \<Rightarrow> Inr (last (e # es))))\<rparr>"

text \<open>
  A randomness source over the small chain with head at height 30, a constant protocol
  version \<open>v\<close>, and a beacon whose round for epoch \<open>e\<close> is \<open>e - d\<close>.
\<close>

definition exampleStateRand :: "Version \<Rightarrow> 64 word \<Rightarrow> stateRand" where
  "exampleStateRand v d =
     \<lparr>cs = exampleStore,
      blks = [30],
      beacon = \<lparr>BeaconForEpoch = (\<lambda>e. \<lparr>MaxBeaconRoundForEpoch = (\<lambda>nv e'. e' - d)\<rparr>)\<rparr>,
      networkVersionGetter = (\<lambda>e. v)\<rparr>"

section \<open>Properties of DrawRandomness\<close>

lemma BigEndian_PutUint64_length: "length (BigEndian_PutUint64 v) = 8"
  by (simp add: BigEndian_PutUint64_def)

text \<open>
  The eight bytes are the big-endian digits of the value: read back most significant byte
  first (\<open>word_rcat\<close>), they give the 64-bit value again.
\<close>

lemma uint_drop_bit: "uint (drop_bit n v) = uint v div 2 ^ n" for v :: "64 word"
proof -
  have "take_bit 64 (uint v) = uint v"
    using uint_bounded [of v] by (simp add: take_bit_int_eq_self)
  moreover have "uint (drop_bit n v) = drop_bit n (take_bit 64 (uint v))"
    by (subst unsigned_drop_bit_eq) simp
  ultimately show ?thesis
    by (simp only: drop_bit_eq_div)
qed

lemma uint_low_byte: "uint (ucast v :: 8 word) = uint v mod 256" for v :: "64 word"
  by (simp add: unsigned_ucast_eq take_bit_eq_mod)

lemma split_step: "(x :: int) div (256 * k) = (x div k) div 256" if "0 < k"
  using that by (simp add: zdiv_zmult2_eq mult.commute)

lemma big_endian_sum:
  fixes x :: int
  assumes "0 \<le> x" "x < 2 ^ 64"
  shows "x mod 256 + 256 * ((x div 2 ^ 8) mod 256 + 256 * ((x div 2 ^ 16) mod 256
      + 256 * ((x div 2 ^ 24) mod 256 + 256 * ((x div 2 ^ 32) mod 256
      + 256 * ((x div 2 ^ 40) mod 256 + 256 * ((x div 2 ^ 48) mod 256
      + 256 * ((x div 2 ^ 56) mod 256))))))) = x"
proof -
  define y1 where "y1 = x div 256"
  define y2 where "y2 = y1 div 256"
  define y3 where "y3 = y2 div 256"
  define y4 where "y4 = y3 div 256"
  define y5 where "y5 = y4 div 256"
  define y6 where "y6 = y5 div 256"
  define y7 where "y7 = y6 div 256"
  have d1: "x div 2 ^ 8 = y1" by (simp add: y1_def)
  have d2: "x div 2 ^ 16 = y2"
    using split_step [of "2 ^ 8" x] by (simp add: y2_def y1_def)
  have d3: "x div 2 ^ 24 = y3"
    using split_step [of "2 ^ 16" x] d2 by (simp add: y3_def)
  have d4: "x div 2 ^ 32 = y4"
    using split_step [of "2 ^ 24" x] d3 by (simp add: y4_def)
  have d5: "x div 2 ^ 40 = y5"
    using split_step [of "2 ^ 32" x] d4 by (simp add: y5_def)
  have d6: "x div 2 ^ 48 = y6"
    using split_step [of "2 ^ 40" x] d5 by (simp add: y6_def)
  have d7: "x div 2 ^ 56 = y7"
    using split_step [of "2 ^ 48" x] d6 by (simp add: y7_def)
  have top: "y7 mod 256 = y7"
  proof -
    from assms have "0 \<le> x div 2 ^ 56" "x div 2 ^ 56 < 256" by simp_all
    then have "0 \<le> y7" "y7 < 256" unfolding d7 by simp_all
    then show ?thesis by simp
  qed
  have s: "a mod 256 + 256 * (a div 256) = a" for a :: int
    by simp
  have steps: "x mod 256 + 256 * y1 = x" "y1 mod 256 + 256 * y2 = y1"
    "y2 mod 256 + 256 * y3 = y2" "y3 mod 256 + 256 * y4 = y3" "y4 mod 256 + 256 * y5 = y4"
    "y5 mod 256 + 256 * y6 = y5" "y6 mod 256 + 256 * y7 = y6"
    by (simp_all add: y1_def y2_def y3_def y4_def y5_def y6_def y7_def)
  show ?thesis
    by (simp only: d1 d2 d3 d4 d5 d6 d7 top steps)
qed

lemma word_rcat_BigEndian: "(word_rcat (BigEndian_PutUint64 v) :: 64 word) = v"
proof -
  have bounds: "0 \<le> uint v" "uint v < 2 ^ 64"
    using uint_bounded [of v] by simp_all
  have "horner_sum uint (2 ^ 8) (rev (BigEndian_PutUint64 v)) = uint v"
    unfolding BigEndian_PutUint64_def rev.simps append.simps horner_sum_simps uint_low_byte uint_drop_bit
    using big_endian_sum [OF bounds] by simp
  then show ?thesis
    by (simp add: word_rcat_def)
qed

lemmas draw_defs = DrawRandomness_def blake2b_New256_def binary_Write_def hash_Write_def hash_Sum_def

lemma DrawRandomness_eq:
  "DrawRandomness H rbase pers round entropy = Inr (H (drawStream H rbase pers round entropy))"
  by (simp add: draw_defs drawStream_def)

text \<open>
  Claim C1. For every base, tag, round and entropy, DrawRandomness returns, without error,
  the BLAKE2b-256 digest of one byte stream, the bytes fed to the accumulator in order.
  The first eight bytes of the stream, read as a big-endian two's complement 64-bit
  integer, are the tag; the next bytes are the BLAKE2b-256 digest of the base, computed
  once by the same primitive; the eight bytes after it, read as a big-endian two's
  complement 64-bit integer, are the round; the rest is the entropy, unchanged. A
  BLAKE2b-256 digest being 32 bytes long (\<open>blake2b.Sum256\<close> returns a \<open>[32]byte\<close>), the
  stream is 48 bytes followed by the entropy and the returned value is 32 bytes long.
\<close>

theorem DrawRandomness_stream:
  "DrawRandomness H rbase pers round entropy = Inr (H (drawStream H rbase pers round entropy))
   \<and> length (drawStream H rbase pers round entropy) = 8 + length (H rbase) + 8 + length entropy
   \<and> sint (word_rcat (take 8 (drawStream H rbase pers round entropy)) :: 64 word) = sint pers
   \<and> take (length (H rbase)) (drop 8 (drawStream H rbase pers round entropy)) = H rbase
   \<and> sint (word_rcat (take 8 (drop (8 + length (H rbase)) (drawStream H rbase pers round entropy)))
         :: 64 word) = sint round
   \<and> drop (16 + length (H rbase)) (drawStream H rbase pers round entropy) = entropy
   \<and> ((\<forall>x. length (H x) = 32) \<longrightarrow>
        length (drawStream H rbase pers round entropy) = 48 + length entropy
        \<and> (\<exists>digest. DrawRandomness H rbase pers round entropy = Inr digest \<and> length digest = 32))"
proof -
  let ?s = "drawStream H rbase pers round entropy"
  have result: "DrawRandomness H rbase pers round entropy = Inr (H ?s)"
    by (simp add: draw_defs drawStream_def)
  have len: "length ?s = 8 + length (H rbase) + 8 + length entropy"
    by (simp add: drawStream_def BigEndian_PutUint64_length)
  have "take 8 ?s = BigEndian_PutUint64 pers"
    by (simp add: drawStream_def BigEndian_PutUint64_length)
  then have tag: "sint (word_rcat (take 8 ?s) :: 64 word) = sint pers"
    by (simp only: word_rcat_BigEndian)
  have base: "take (length (H rbase)) (drop 8 ?s) = H rbase"
    by (simp add: drawStream_def BigEndian_PutUint64_length)
  have "take 8 (drop (8 + length (H rbase)) ?s) = BigEndian_PutUint64 round"
    by (simp add: drawStream_def BigEndian_PutUint64_length)
  then have epoch: "sint (word_rcat (take 8 (drop (8 + length (H rbase)) ?s)) :: 64 word) = sint round"
    by (simp only: word_rcat_BigEndian)
  have rest: "drop (16 + length (H rbase)) ?s = entropy"
    by (simp add: drawStream_def BigEndian_PutUint64_length)
  have sized: "length ?s = 48 + length entropy
      \<and> (\<exists>digest. DrawRandomness H rbase pers round entropy = Inr digest \<and> length digest = 32)"
    if "\<forall>x. length (H x) = 32"
    using that by (simp add: len result)
  from result len tag base epoch rest sized show ?thesis
    by blast
qed

theorem DrawRandomness_stream_witness:
  "length (exampleHash [1, 2]) = 32
   \<and> length (drawStream exampleHash [1, 2] 2 (- 3) [9]) = 49
   \<and> (\<exists>digest. DrawRandomness exampleHash [1, 2] 2 (- 3) [9] = Inr digest \<and> length digest = 32)
   \<and> sint (word_rcat (take 8 (drop 40 (drawStream exampleHash [1, 2] 2 (- 3) [9]))) :: 64 word) = - 3"
proof -
  have sized: "\<forall>x. length (exampleHash x) = 32"
    by (auto simp: exampleHash_def min_def)
  note stream = DrawRandomness_stream [of exampleHash "[1, 2]" 2 "- 3" "[9]"]
  from sized have base: "length (exampleHash [1, 2]) = 32"
    by blast
  from stream sized
  have "length (drawStream exampleHash [1, 2] 2 (- 3) [9]) = 48 + length [9 :: byte]"
    and digest: "\<exists>digest. DrawRandomness exampleHash [1, 2] 2 (- 3) [9] = Inr digest \<and> length digest = 32"
    by blast+
  then have len: "length (drawStream exampleHash [1, 2] 2 (- 3) [9]) = 49"
    by simp
  from stream
  have "sint (word_rcat (take 8 (drop (8 + length (exampleHash [1, 2]))
      (drawStream exampleHash [1, 2] 2 (- 3) [9]))) :: 64 word) = sint (- 3 :: 64 word)"
    by blast
  then have epoch: "sint (word_rcat (take 8 (drop 40 (drawStream exampleHash [1, 2] 2 (- 3) [9])))
      :: 64 word) = - 3"
    by (simp add: base)
  from base len digest epoch show ?thesis
    by blast
qed

section \<open>Shared facts\<close>

text \<open>A negative round is never above a tipset height that is not negative.\<close>

lemma negative_round_not_future:
  "round <s 0 \<Longrightarrow> 0 \<le>s Height ts \<Longrightarrow> \<not> Height ts <s round"
  by (simp add: word_sless_alt word_sle_eq)

text \<open>The source functions and the paths of the specification.\<close>

lemma getChainRandomness_anchor:
  "getChainRandomness H sr pers epoch entropy lookback = anchorThenTicket H sr lookback pers epoch entropy"
  by (simp add: getChainRandomness_def anchorThenTicket_def GetBeaconRandomnessTipset_def
      MinTicketBlock_def Let_def split: sum.splits)

lemma getBeaconRandomnessV1_anchor:
  "getBeaconRandomnessV1 H sr pers epoch entropy = anchorThenLatestEntry H sr True pers epoch entropy"
  by (simp add: getBeaconRandomnessV1_def anchorThenLatestEntry_def)

lemma getBeaconRandomnessV2_anchor:
  "getBeaconRandomnessV2 H sr pers epoch entropy = anchorThenLatestEntry H sr False pers epoch entropy"
  by (simp add: getBeaconRandomnessV2_def anchorThenLatestEntry_def)

lemma carries_firstBlock_miss:
  "Blocks t \<noteq> [] \<Longrightarrow> carries round t = None \<Longrightarrow>
     scanLoop store round e (Suc n) t =
       (case LoadTipSet store (Parents t) of
          Inl err \<Rightarrow> Inl (ErrFailedToLoadParents err)
        | Inr next \<Rightarrow> scanLoop store round e n next)"
  by (cases "Blocks t") (simp_all add: carries_def firstBlock_def)

lemma scanLoop_hit:
  "carries round t = Some v \<Longrightarrow> scanLoop store round e (Suc n) t = Inr v"
  by (cases "Blocks t") (simp_all add: carries_def firstBlock_def)

lemma carries_Round: "carries round t = Some v \<Longrightarrow> Round v = round"
  by (cases "Blocks t") (auto simp: carries_def find_Some_iff)

lemma scanLoop_found:
  "ancestry store t ps \<Longrightarrow> length ps < n \<Longrightarrow>
   \<forall>x \<in> set (butlast (t # ps)). Blocks x \<noteq> [] \<and> carries round x = None \<Longrightarrow>
   carries round (last (t # ps)) = Some v \<Longrightarrow>
   scanLoop store round e n t = Inr v"
proof (induction ps arbitrary: t n)
  case Nil
  then obtain m where "n = Suc m" by (cases n) auto
  with Nil show ?case by (simp add: scanLoop_hit del: scanLoop.simps)
next
  case (Cons p ps)
  then obtain m where n: "n = Suc m" by (cases n) auto
  from Cons.prems have miss: "Blocks t \<noteq> []" "carries round t = None" by simp_all
  from Cons.prems have load: "LoadTipSet store (Parents t) = Inr p" by simp
  have "scanLoop store round e m p = Inr v"
    using Cons.prems n by (intro Cons.IH) auto
  then show ?case by (simp add: n carries_firstBlock_miss [OF miss] load del: scanLoop.simps)
qed

lemma scanLoop_exhausted:
  "ancestry store t ps \<Longrightarrow> length ps = n \<Longrightarrow>
   \<forall>x \<in> set (butlast (t # ps)). Blocks x \<noteq> [] \<and> carries round x = None \<Longrightarrow>
   scanLoop store round e n t = Inl (ErrBeaconNotFound round e)"
proof (induction ps arbitrary: t n)
  case Nil
  then show ?case by simp
next
  case (Cons p ps)
  then obtain m where n: "n = Suc m" by (cases n) auto
  from Cons.prems have miss: "Blocks t \<noteq> []" "carries round t = None" by simp_all
  from Cons.prems have load: "LoadTipSet store (Parents t) = Inr p" by simp
  have "scanLoop store round e m p = Inl (ErrBeaconNotFound round e)"
    using Cons.prems n by (intro Cons.IH) auto
  then show ?case by (simp add: n carries_firstBlock_miss [OF miss] load del: scanLoop.simps)
qed

lemma scanLoop_load_failure:
  "ancestry store t ps \<Longrightarrow> length ps < n \<Longrightarrow>
   \<forall>x \<in> set (t # ps). Blocks x \<noteq> [] \<and> carries round x = None \<Longrightarrow>
   LoadTipSet store (Parents (last (t # ps))) = Inl err \<Longrightarrow>
   scanLoop store round e n t = Inl (ErrFailedToLoadParents err)"
proof (induction ps arbitrary: t n)
  case Nil
  then obtain m where n: "n = Suc m" by (cases n) auto
  from Nil have miss: "Blocks t \<noteq> []" "carries round t = None" by simp_all
  from Nil show ?case by (simp add: n carries_firstBlock_miss [OF miss] del: scanLoop.simps)
next
  case (Cons p ps)
  then obtain m where n: "n = Suc m" by (cases n) auto
  from Cons.prems have miss: "Blocks t \<noteq> []" "carries round t = None" by simp_all
  from Cons.prems have load: "LoadTipSet store (Parents t) = Inr p" by simp
  have "scanLoop store round e m p = Inl (ErrFailedToLoadParents err)"
    using Cons.prems n by (intro Cons.IH) auto
  then show ?case by (simp add: n carries_firstBlock_miss [OF miss] load del: scanLoop.simps)
qed

section \<open>Version dispatch (C2)\<close>

text \<open>
  Claim C2, as amended. The derivation path is selected from the protocol version returned
  for the target epoch and, under version 14 or later, from the sign of the epoch. Chain
  randomness uses the anchor search without lookback when the version is at least 13 and
  with lookback otherwise, and feeds the ticket VRF proof of the anchor's first block.
  Beacon randomness uses, when the version is at least 14 and the epoch is not negative,
  the newest algorithm (target round from the beacon schedule's MaxBeaconRoundForEpoch,
  then the backward scanner); when the version is at least 14 and the epoch is negative, or
  the version is 13, the anchor search without lookback followed by the anchor's latest
  beacon entry; and when the version is below 13 the anchor search with lookback followed
  by the anchor's latest beacon entry.
\<close>

theorem version_dispatch:
  "GetChainRandomness H sr pers epoch entropy =
     (if Version13 \<le> networkVersionGetter sr epoch then anchorThenTicket H sr False pers epoch entropy
      else anchorThenTicket H sr True pers epoch entropy)
   \<and> GetBeaconRandomness H sr pers epoch entropy =
     (if Version14 \<le> networkVersionGetter sr epoch then
        (if epoch <s 0 then anchorThenLatestEntry H sr False pers epoch entropy
         else newestAlgorithm H sr pers epoch entropy)
      else if networkVersionGetter sr epoch = Version13 then
        anchorThenLatestEntry H sr False pers epoch entropy
      else anchorThenLatestEntry H sr True pers epoch entropy)"
proof -
  have v3: "getBeaconRandomnessV3 H sr pers epoch entropy =
      (if epoch <s 0 then anchorThenLatestEntry H sr False pers epoch entropy
       else newestAlgorithm H sr pers epoch entropy)"
    by (simp add: getBeaconRandomnessV3_def getBeaconRandomnessV2_anchor newestAlgorithm_def
        extractBeaconEntryForEpoch_def Let_def split: sum.splits)
  have chain: "GetChainRandomness H sr pers epoch entropy =
     (if Version13 \<le> networkVersionGetter sr epoch then anchorThenTicket H sr False pers epoch entropy
      else anchorThenTicket H sr True pers epoch entropy)"
    by (simp add: GetChainRandomness_def Let_def getChainRandomness_anchor)
  have beacon: "GetBeaconRandomness H sr pers epoch entropy =
     (if Version14 \<le> networkVersionGetter sr epoch then getBeaconRandomnessV3 H sr pers epoch entropy
      else if networkVersionGetter sr epoch = Version13 then
        anchorThenLatestEntry H sr False pers epoch entropy
      else anchorThenLatestEntry H sr True pers epoch entropy)"
    by (simp add: GetBeaconRandomness_def Let_def getBeaconRandomnessV1_anchor
        getBeaconRandomnessV2_anchor)
  show ?thesis
    unfolding chain beacon v3 by simp
qed

text \<open>
  The claim as first stated has every request under version 14 or later run the newest
  algorithm. At epoch \<open>-3\<close> the code takes the latest beacon entry of the genesis tipset
  and succeeds, where the newest algorithm would scan for the round of the epoch and fail.
\<close>

theorem dispatch_counterexample:
  "Version14 \<le> networkVersionGetter (exampleStateRand 14 0) (- 3)
   \<and> GetBeaconRandomness exampleHash (exampleStateRand 14 0) 2 (- 3) []
       \<noteq> newestAlgorithm exampleHash (exampleStateRand 14 0) 2 (- 3) []"
  by code_simp

section \<open>The backward scan (C3)\<close>

text \<open>
  Claim C3, as amended. A hop is one iteration of the loop: hop 1 inspects the anchor, hop
  \<open>k\<close> the tipset reached from the anchor by \<open>k - 1\<close> parent keys. Each hop inspects the
  beacon entries of the first block of its tipset and then loads the parent. When the
  first tipset whose first block carries the target round is inspected at one of the hops
  1 to 20, the scan returns that block's first entry with the target round. When the
  tipsets of hops 1 to 20 carry no such entry and each of the 20 parent loads succeeds,
  the last one included, the scan fails with the beacon-entry-not-found error, whatever
  the tipset of hop 21 carries. When a parent load fails before that, the scan fails with
  the failed-to-load-parents error instead.
\<close>

theorem backward_scan_bound:
  assumes anchor: "GetBeaconRandomnessTipset sr epoch False = Inr anchor"
    and target: "round = MaxBeaconRoundForEpoch (BeaconForEpoch (beacon sr) epoch)
                           (networkVersionGetter sr epoch) epoch"
    and chain: "ancestry (cs sr) anchor ps"
  shows
    "(length ps < 20
        \<and> (\<forall>x \<in> set (butlast (anchor # ps)). Blocks x \<noteq> [] \<and> carries round x = None)
        \<and> carries round (last (anchor # ps)) = Some v
      \<longrightarrow> extractBeaconEntryForEpoch sr epoch = Inr v \<and> Round v = round)
   \<and> (length ps = 20
        \<and> (\<forall>x \<in> set (butlast (anchor # ps)). Blocks x \<noteq> [] \<and> carries round x = None)
      \<longrightarrow> extractBeaconEntryForEpoch sr epoch = Inl (ErrBeaconNotFound round epoch))
   \<and> (length ps < 20
        \<and> (\<forall>x \<in> set (anchor # ps). Blocks x \<noteq> [] \<and> carries round x = None)
        \<and> LoadTipSet (cs sr) (Parents (last (anchor # ps))) = Inl err
      \<longrightarrow> extractBeaconEntryForEpoch sr epoch = Inl (ErrFailedToLoadParents err))"
proof -
  have run: "extractBeaconEntryForEpoch sr epoch = scanLoop (cs sr) round epoch 20 anchor"
    by (simp add: extractBeaconEntryForEpoch_def anchor target Let_def)
  show ?thesis
    unfolding run
    using scanLoop_found [OF chain, of 20 round v epoch]
      scanLoop_exhausted [OF chain, of 20 round epoch]
      scanLoop_load_failure [OF chain, of 20 round err epoch]
      carries_Round [of round "last (anchor # ps)" v]
    by blast
qed

theorem backward_scan_bound_witness:
  "extractBeaconEntryForEpoch (exampleStateRand 14 19) 30 = Inr \<lparr>Round = 11, Data = [11, 1]\<rparr>
   \<and> carries 10 (exampleTipSet 10) = Some \<lparr>Round = 10, Data = [10, 1]\<rparr>
   \<and> extractBeaconEntryForEpoch (exampleStateRand 14 20) 30 = Inl (ErrBeaconNotFound 10 30)
   \<and> extractBeaconEntryForEpoch (exampleStateRand 14 (- 95)) 5
       = Inl (ErrFailedToLoadParents ''tipset not found'')"
proof -
  let ?a = "exampleTipSet 30"
  let ?ps19 =
    "[exampleTipSet 29, exampleTipSet 28, exampleTipSet 27,
      exampleTipSet 26, exampleTipSet 25, exampleTipSet 24,
      exampleTipSet 23, exampleTipSet 22, exampleTipSet 21,
      exampleTipSet 20, exampleTipSet 19, exampleTipSet 18,
      exampleTipSet 17, exampleTipSet 16, exampleTipSet 15,
      exampleTipSet 14, exampleTipSet 13, exampleTipSet 12,
      exampleTipSet 11]"
  let ?ps20 =
    "[exampleTipSet 29, exampleTipSet 28, exampleTipSet 27,
      exampleTipSet 26, exampleTipSet 25, exampleTipSet 24,
      exampleTipSet 23, exampleTipSet 22, exampleTipSet 21,
      exampleTipSet 20, exampleTipSet 19, exampleTipSet 18,
      exampleTipSet 17, exampleTipSet 16, exampleTipSet 15,
      exampleTipSet 14, exampleTipSet 13, exampleTipSet 12,
      exampleTipSet 11, exampleTipSet 10]"
  let ?b = "exampleTipSet 5"
  let ?ps4 = "[exampleTipSet 4, exampleTipSet 3, exampleTipSet 2, exampleTipSet 1, exampleTipSet 0]"
  have a1: "GetBeaconRandomnessTipset (exampleStateRand 14 19) 30 False = Inr ?a"
    by code_simp
  have r1: "(11 :: 64 word) = MaxBeaconRoundForEpoch (BeaconForEpoch (beacon (exampleStateRand 14 19)) 30)
      (networkVersionGetter (exampleStateRand 14 19) 30) 30"
    by code_simp
  have c1: "ancestry (cs (exampleStateRand 14 19)) ?a ?ps19"
    by code_simp
  have h1: "length ?ps19 < 20
      \<and> (\<forall>x \<in> set (butlast (?a # ?ps19)). Blocks x \<noteq> [] \<and> carries 11 x = None)
      \<and> carries 11 (last (?a # ?ps19)) = Some \<lparr>Round = 11, Data = [11, 1]\<rparr>"
    by code_simp
  have found: "extractBeaconEntryForEpoch (exampleStateRand 14 19) 30 = Inr \<lparr>Round = 11, Data = [11, 1]\<rparr>"
    using backward_scan_bound [OF a1 r1 c1] h1 by blast
  have a2: "GetBeaconRandomnessTipset (exampleStateRand 14 20) 30 False = Inr ?a"
    by code_simp
  have r2: "(10 :: 64 word) = MaxBeaconRoundForEpoch (BeaconForEpoch (beacon (exampleStateRand 14 20)) 30)
      (networkVersionGetter (exampleStateRand 14 20) 30) 30"
    by code_simp
  have c2: "ancestry (cs (exampleStateRand 14 20)) ?a ?ps20"
    by code_simp
  have h2: "length ?ps20 = 20
      \<and> (\<forall>x \<in> set (butlast (?a # ?ps20)). Blocks x \<noteq> [] \<and> carries 10 x = None)"
    by code_simp
  have missed: "extractBeaconEntryForEpoch (exampleStateRand 14 20) 30 = Inl (ErrBeaconNotFound 10 30)"
    using backward_scan_bound [OF a2 r2 c2] h2 by blast
  have beyond: "carries 10 (exampleTipSet 10) = Some \<lparr>Round = 10, Data = [10, 1]\<rparr>"
    by code_simp
  have a3: "GetBeaconRandomnessTipset (exampleStateRand 14 (- 95)) 5 False = Inr ?b"
    by code_simp
  have r3: "(100 :: 64 word) = MaxBeaconRoundForEpoch (BeaconForEpoch (beacon (exampleStateRand 14 (- 95))) 5)
      (networkVersionGetter (exampleStateRand 14 (- 95)) 5) 5"
    by code_simp
  have c3: "ancestry (cs (exampleStateRand 14 (- 95))) ?b ?ps4"
    by code_simp
  have h3: "length ?ps4 < 20
      \<and> (\<forall>x \<in> set (?b # ?ps4). Blocks x \<noteq> [] \<and> carries 100 x = None)
      \<and> LoadTipSet (cs (exampleStateRand 14 (- 95))) (Parents (last (?b # ?ps4))) = Inl ''tipset not found''"
    by code_simp
  have short: "extractBeaconEntryForEpoch (exampleStateRand 14 (- 95)) 5
       = Inl (ErrFailedToLoadParents ''tipset not found'')"
    using backward_scan_bound [OF a3 r3 c3] h3 by blast
  from found beyond missed short show ?thesis by blast
qed

text \<open>
  The claim as first stated has the scan fail with the beacon-entry-not-found error
  whenever the round does not appear within 20 hops. On a chain of six tipsets none of
  which carries round 100, the scan from the tipset at height 5 ends at the genesis
  tipset, whose parent key does not load, with the failed-to-load-parents error.
\<close>

theorem backward_scan_short_chain_counterexample:
  "GetBeaconRandomnessTipset (exampleStateRand 14 (- 95)) 5 False = Inr (exampleTipSet 5)
   \<and> ancestry exampleStore (exampleTipSet 5)
        [exampleTipSet 4, exampleTipSet 3, exampleTipSet 2, exampleTipSet 1, exampleTipSet 0]
   \<and> carries 100 (exampleTipSet 5) = None \<and> carries 100 (exampleTipSet 4) = None
   \<and> carries 100 (exampleTipSet 3) = None \<and> carries 100 (exampleTipSet 2) = None
   \<and> carries 100 (exampleTipSet 1) = None \<and> carries 100 (exampleTipSet 0) = None
   \<and> LoadTipSet exampleStore (Parents (exampleTipSet 0)) = Inl ''tipset not found''
   \<and> extractBeaconEntryForEpoch (exampleStateRand 14 (- 95)) 5
       = Inl (ErrFailedToLoadParents ''tipset not found'')
   \<and> extractBeaconEntryForEpoch (exampleStateRand 14 (- 95)) 5 \<noteq> Inl (ErrBeaconNotFound 100 5)"
  by code_simp

section \<open>The anchor is the answer of the chain store\<close>

text \<open>
  The package bounds the request, not the answer: an anchor is returned only when the
  round is not above the height of the current tipset, and it is then the tipset that the
  by-height search of the chain store returns for the round raised to zero.
\<close>

lemma anchor_is_store_answer:
  "GetBeaconRandomnessTipset sr round lookback = Inr anchor \<Longrightarrow>
     \<exists>ts. LoadTipSet (cs sr) (NewTipSetKey (blks sr)) = Inr ts \<and> \<not> Height ts <s round
        \<and> GetTipsetByHeight (cs sr) (if round <s 0 then 0 else round) ts lookback = Inr anchor"
  by (auto simp: GetBeaconRandomnessTipset_def Let_def split: sum.splits if_splits)

section \<open>Requests from the future (C4)\<close>

text \<open>
  Claim C4. Let the caller's current tipset load. For every requested round, the anchor
  lookup of the beacon path and that of the chain path fail with the
  randomness-from-the-future error if and only if the round is strictly greater than the
  height of the current tipset. In particular, the height of a tipset being not negative,
  a negative round does not trigger this error, and the tipset-by-height search is then
  called with height zero.
\<close>

theorem future_error_iff:
  assumes head: "LoadTipSet (cs sr) (NewTipSetKey (blks sr)) = Inr ts"
  shows
    "(GetBeaconRandomnessTipset sr round lookback = Inl ErrDrawFromFuture \<longleftrightarrow> Height ts <s round)
   \<and> (getChainRandomness H sr pers round entropy lookback = Inl ErrDrawFromFuture \<longleftrightarrow> Height ts <s round)
   \<and> (round <s 0 \<and> 0 \<le>s Height ts \<longrightarrow>
        GetBeaconRandomnessTipset sr round lookback \<noteq> Inl ErrDrawFromFuture
      \<and> getChainRandomness H sr pers round entropy lookback \<noteq> Inl ErrDrawFromFuture
      \<and> GetBeaconRandomnessTipset sr round lookback =
          (case GetTipsetByHeight (cs sr) 0 ts lookback of
             Inl err \<Rightarrow> Inl (ErrStore err)
           | Inr randTs \<Rightarrow> Inr randTs)
      \<and> getChainRandomness H sr pers round entropy lookback =
          (case GetTipsetByHeight (cs sr) 0 ts lookback of
             Inl err \<Rightarrow> Inl (ErrStore err)
           | Inr randTs \<Rightarrow>
               (case MinTicketBlock randTs of
                  Inl err \<Rightarrow> Inl err
                | Inr mtb \<Rightarrow> DrawRandomness H (VRFProof (Ticket mtb)) pers round entropy)))"
proof -
  have beacon: "GetBeaconRandomnessTipset sr round lookback = Inl ErrDrawFromFuture \<longleftrightarrow> Height ts <s round"
    by (simp add: GetBeaconRandomnessTipset_def head Let_def split: sum.splits)
  have chain: "getChainRandomness H sr pers round entropy lookback = Inl ErrDrawFromFuture \<longleftrightarrow> Height ts <s round"
    by (simp add: getChainRandomness_def head Let_def DrawRandomness_eq MinTicketBlock_def firstBlock_def
        split: sum.splits list.splits)
  have clamp: "GetBeaconRandomnessTipset sr round lookback =
          (case GetTipsetByHeight (cs sr) 0 ts lookback of
             Inl err \<Rightarrow> Inl (ErrStore err)
           | Inr randTs \<Rightarrow> Inr randTs)
      \<and> getChainRandomness H sr pers round entropy lookback =
          (case GetTipsetByHeight (cs sr) 0 ts lookback of
             Inl err \<Rightarrow> Inl (ErrStore err)
           | Inr randTs \<Rightarrow>
               (case MinTicketBlock randTs of
                  Inl err \<Rightarrow> Inl err
                | Inr mtb \<Rightarrow> DrawRandomness H (VRFProof (Ticket mtb)) pers round entropy))"
    if "round <s 0" "0 \<le>s Height ts"
    using that negative_round_not_future [OF that]
    by (simp add: GetBeaconRandomnessTipset_def getChainRandomness_def head Let_def)
  show ?thesis
    using beacon chain clamp negative_round_not_future [of round ts] by blast
qed

theorem future_error_iff_witness:
  "GetBeaconRandomnessTipset (exampleStateRand 13 0) 31 False = Inl ErrDrawFromFuture
   \<and> getChainRandomness exampleHash (exampleStateRand 13 0) 2 31 [] False = Inl ErrDrawFromFuture
   \<and> GetBeaconRandomnessTipset (exampleStateRand 13 0) 30 False \<noteq> Inl ErrDrawFromFuture
   \<and> GetBeaconRandomnessTipset (exampleStateRand 13 0) (- 3) False = Inr (exampleTipSet 0)
   \<and> getChainRandomness exampleHash (exampleStateRand 13 0) 2 (- 3) [] False \<noteq> Inl ErrDrawFromFuture"
proof -
  let ?sr = "exampleStateRand 13 0"
  let ?ts = "exampleTipSet 30"
  have head: "LoadTipSet (cs ?sr) (NewTipSetKey (blks ?sr)) = Inr ?ts"
    by code_simp
  note T = future_error_iff [OF head, where H = exampleHash and pers = 2 and entropy = "[]" and lookback = False]
  have above: "Height ?ts <s 31" and at: "\<not> Height ?ts <s 30"
    and neg: "(- 3 :: 64 word) <s 0 \<and> 0 \<le>s Height ?ts"
    by code_simp+
  have search: "GetTipsetByHeight (cs ?sr) 0 ?ts False = Inr (exampleTipSet 0)"
    by code_simp
  from T [of 31] above
  have c1: "GetBeaconRandomnessTipset ?sr 31 False = Inl ErrDrawFromFuture"
    and c2: "getChainRandomness exampleHash ?sr 2 31 [] False = Inl ErrDrawFromFuture"
    by blast+
  from T [of 30] at
  have c3: "GetBeaconRandomnessTipset ?sr 30 False \<noteq> Inl ErrDrawFromFuture"
    by blast
  from T [of "- 3"] neg
  have c4: "GetBeaconRandomnessTipset ?sr (- 3) False =
          (case GetTipsetByHeight (cs ?sr) 0 ?ts False of
             Inl err \<Rightarrow> Inl (ErrStore err)
           | Inr randTs \<Rightarrow> Inr randTs)"
    and c5: "getChainRandomness exampleHash ?sr 2 (- 3) [] False \<noteq> Inl ErrDrawFromFuture"
    by blast+
  from c4 search have c4': "GetBeaconRandomnessTipset ?sr (- 3) False = Inr (exampleTipSet 0)"
    by simp
  from c1 c2 c3 c4' c5 show ?thesis by blast
qed

section \<open>The base of chain randomness (C6)\<close>

text \<open>
  Claim C6. For every epoch and under both generations of chain randomness (lookback below
  version 13, no lookback from version 13 on), when the anchor lookup returns a tipset,
  the base value fed into the hash-chain function is the ticket VRF proof of the first
  block of that tipset.
\<close>

theorem chain_randomness_base:
  assumes anchor: "GetBeaconRandomnessTipset sr epoch (networkVersionGetter sr epoch < Version13) = Inr anchor"
    and first: "Blocks anchor = b # rest"
  shows "GetChainRandomness H sr pers epoch entropy
           = DrawRandomness H (VRFProof (Ticket b)) pers epoch entropy
       \<and> GetChainRandomness H sr pers epoch entropy
           = Inr (H (drawStream H (VRFProof (Ticket b)) pers epoch entropy))"
proof -
  have "GetChainRandomness H sr pers epoch entropy
      = anchorThenTicket H sr (networkVersionGetter sr epoch < Version13) pers epoch entropy"
    by (simp add: GetChainRandomness_def Let_def getChainRandomness_anchor not_le)
  also have "\<dots> = DrawRandomness H (VRFProof (Ticket b)) pers epoch entropy"
    by (simp add: anchorThenTicket_def anchor firstBlock_def first)
  finally show ?thesis
    by (simp add: DrawRandomness_eq)
qed

theorem chain_randomness_base_witness:
  "GetChainRandomness exampleHash (exampleStateRand 12 0) 2 25 [9]
     = DrawRandomness exampleHash [25, 7] 2 25 [9]
   \<and> GetChainRandomness exampleHash (exampleStateRand 13 0) 2 (- 3) [9]
     = DrawRandomness exampleHash [0, 7] 2 (- 3) [9]"
proof -
  let ?old = "exampleStateRand 12 0"
  let ?new = "exampleStateRand 13 0"
  have a1: "GetBeaconRandomnessTipset ?old 25 (networkVersionGetter ?old 25 < Version13)
      = Inr (exampleTipSet 25)"
    by code_simp
  have b1: "Blocks (exampleTipSet 25)
      = \<lparr>Ticket = \<lparr>VRFProof = [25, 7]\<rparr>, BeaconEntries = [\<lparr>Round = 25, Data = [25, 1]\<rparr>]\<rparr> # []"
    by code_simp
  have a2: "GetBeaconRandomnessTipset ?new (- 3) (networkVersionGetter ?new (- 3) < Version13)
      = Inr (exampleTipSet 0)"
    by code_simp
  have b2: "Blocks (exampleTipSet 0)
      = \<lparr>Ticket = \<lparr>VRFProof = [0, 7]\<rparr>, BeaconEntries = [\<lparr>Round = 0, Data = [0, 1]\<rparr>]\<rparr> # []"
    by code_simp
  from chain_randomness_base [OF a1 b1, of exampleHash 2 "[9]"]
    chain_randomness_base [OF a2 b2, of exampleHash 2 "[9]"]
  show ?thesis by simp
qed

section \<open>Negative epochs under the newest algorithm (C7)\<close>

text \<open>
  Claim C7. For every strictly negative epoch whose protocol version is at least 14,
  GetBeaconRandomness is the version 13 path: the anchor search without lookback followed
  by the anchor's latest beacon entry, the backward scanner not being run. When the
  collaborators succeed (the current tipset loads and its height is not negative, the
  search at height zero returns an anchor, the store returns the anchor's latest beacon
  entry), the result is a randomness value and not an error.
\<close>

theorem negative_epoch_fallback:
  assumes newest: "Version14 \<le> networkVersionGetter sr epoch"
    and negative: "epoch <s 0"
  shows "GetBeaconRandomness H sr pers epoch entropy = getBeaconRandomnessV2 H sr pers epoch entropy
       \<and> GetBeaconRandomness H sr pers epoch entropy = anchorThenLatestEntry H sr False pers epoch entropy
       \<and> (LoadTipSet (cs sr) (NewTipSetKey (blks sr)) = Inr ts \<and> 0 \<le>s Height ts
            \<and> GetTipsetByHeight (cs sr) 0 ts False = Inr anchor
            \<and> GetLatestBeaconEntry (cs sr) anchor = Inr be
          \<longrightarrow> GetBeaconRandomness H sr pers epoch entropy
                = Inr (H (drawStream H (Data be) pers epoch entropy)))"
proof -
  have v2: "GetBeaconRandomness H sr pers epoch entropy = getBeaconRandomnessV2 H sr pers epoch entropy"
    using newest negative
    by (simp add: GetBeaconRandomness_def getBeaconRandomnessV3_def Let_def)
  have ok: "getBeaconRandomnessV2 H sr pers epoch entropy
      = Inr (H (drawStream H (Data be) pers epoch entropy))"
    if "LoadTipSet (cs sr) (NewTipSetKey (blks sr)) = Inr ts" "0 \<le>s Height ts"
      "GetTipsetByHeight (cs sr) 0 ts False = Inr anchor" "GetLatestBeaconEntry (cs sr) anchor = Inr be"
    using that negative negative_round_not_future [OF negative that(2)]
    by (simp add: getBeaconRandomnessV2_def GetBeaconRandomnessTipset_def Let_def DrawRandomness_eq)
  show ?thesis
    using v2 ok by (simp add: getBeaconRandomnessV2_anchor)
qed

theorem negative_epoch_fallback_witness:
  "GetBeaconRandomness exampleHash (exampleStateRand 14 0) 2 (- 3) [9]
     = getBeaconRandomnessV2 exampleHash (exampleStateRand 14 0) 2 (- 3) [9]
   \<and> GetBeaconRandomness exampleHash (exampleStateRand 14 0) 2 (- 3) [9]
     = Inr (exampleHash (drawStream exampleHash [0, 1] 2 (- 3) [9]))"
proof -
  let ?sr = "exampleStateRand 14 0"
  have newest: "Version14 \<le> networkVersionGetter ?sr (- 3)" and negative: "(- 3 :: 64 word) <s 0"
    by code_simp+
  have collaborators: "LoadTipSet (cs ?sr) (NewTipSetKey (blks ?sr)) = Inr (exampleTipSet 30)
      \<and> 0 \<le>s Height (exampleTipSet 30)
      \<and> GetTipsetByHeight (cs ?sr) 0 (exampleTipSet 30) False = Inr (exampleTipSet 0)
      \<and> GetLatestBeaconEntry (cs ?sr) (exampleTipSet 0) = Inr \<lparr>Round = 0, Data = [0, 1]\<rparr>"
    by code_simp
  note fallback = negative_epoch_fallback [OF newest negative, of exampleHash 2 "[9]"
      "exampleTipSet 30" "exampleTipSet 0" "\<lparr>Round = 0, Data = [0, 1]\<rparr>"]
  from fallback
  have v2: "GetBeaconRandomness exampleHash ?sr 2 (- 3) [9] = getBeaconRandomnessV2 exampleHash ?sr 2 (- 3) [9]"
    by blast
  from fallback collaborators
  have "GetBeaconRandomness exampleHash ?sr 2 (- 3) [9]
      = Inr (exampleHash (drawStream exampleHash (Data \<lparr>Round = 0, Data = [0, 1]\<rparr>) 2 (- 3) [9]))"
    by blast
  then have outcome: "GetBeaconRandomness exampleHash ?sr 2 (- 3) [9]
      = Inr (exampleHash (drawStream exampleHash [0, 1] 2 (- 3) [9]))"
    by simp
  from v2 outcome show ?thesis by blast
qed

section \<open>Construction and the bypass (C8)\<close>



section \<open>Rounds of opposite sign (C9)\<close>



section \<open>The first two generations of beacon randomness (C10)\<close>

text \<open>
  Claim C10. getBeaconRandomnessV1 and getBeaconRandomnessV2 are the same path, anchor
  lookup followed by the anchor's latest beacon entry, with the lookback flag set and
  cleared; for every tag, round and entropy, whenever the anchor lookup with lookback and
  the one without return the same result, the two functions return the same bytes.
\<close>

theorem beacon_V1_V2_lookback_only:
  "getBeaconRandomnessV1 H sr pers round entropy = anchorThenLatestEntry H sr True pers round entropy
   \<and> getBeaconRandomnessV2 H sr pers round entropy = anchorThenLatestEntry H sr False pers round entropy
   \<and> (GetBeaconRandomnessTipset sr round True = GetBeaconRandomnessTipset sr round False
      \<longrightarrow> getBeaconRandomnessV1 H sr pers round entropy = getBeaconRandomnessV2 H sr pers round entropy)"
proof -
  have same: "anchorThenLatestEntry H sr True pers round entropy
      = anchorThenLatestEntry H sr False pers round entropy"
    if "GetBeaconRandomnessTipset sr round True = GetBeaconRandomnessTipset sr round False"
    using that by (simp add: anchorThenLatestEntry_def)
  show ?thesis
    using same by (simp add: getBeaconRandomnessV1_anchor getBeaconRandomnessV2_anchor)
qed

theorem beacon_V1_V2_lookback_only_witness:
  "GetBeaconRandomnessTipset (exampleStateRand 12 0) 25 True = Inr (exampleTipSet 25)
   \<and> GetBeaconRandomnessTipset (exampleStateRand 12 0) 25 False = Inr (exampleTipSet 25)
   \<and> getBeaconRandomnessV1 exampleHash (exampleStateRand 12 0) 2 25 [9]
       = getBeaconRandomnessV2 exampleHash (exampleStateRand 12 0) 2 25 [9]"
proof -
  let ?sr = "exampleStateRand 12 0"
  have l: "GetBeaconRandomnessTipset ?sr 25 True = Inr (exampleTipSet 25)"
    and n: "GetBeaconRandomnessTipset ?sr 25 False = Inr (exampleTipSet 25)"
    by code_simp+
  have same: "GetBeaconRandomnessTipset ?sr 25 True = GetBeaconRandomnessTipset ?sr 25 False"
    using l n by simp
  from beacon_V1_V2_lookback_only [of exampleHash ?sr 2 25 "[9]"] same
  have "getBeaconRandomnessV1 exampleHash ?sr 2 25 [9] = getBeaconRandomnessV2 exampleHash ?sr 2 25 [9]"
    by blast
  with l n show ?thesis by blast
qed

end
